theory Spec2Isabelle
  imports Complex_Main
begin

section \<open>Numbers and strings of the JavaScript source\<close>

text \<open>
  JavaScript numbers are doubles. The frame rates are the slider's integers 1..10 and
  none of the quotients \<open>1000 / fps\<close> is near a rounding tie, and of the pixel
  coordinates only sums and differences are taken, which nothing prints or compares; these
  are kept as exact reals. The one product whose decimal digits the page prints,
  \<open>confidence * 100\<close>, is rounded to a double as the machine rounds it.

  \<open>Math.round\<close> rounds to the nearest integer, a tie going up.
\<close>

definition Math_round :: "real \<Rightarrow> int" where
  "Math_round x = \<lfloor>x + 1 / 2\<rfloor>"

text \<open>The decimal digits of a natural number.\<close>

fun digits :: "nat \<Rightarrow> string" where
  "digits n =
     (if n < 10 then [''0123456789'' ! n]
      else digits (n div 10) @ [''0123456789'' ! (n mod 10)])"

declare digits.simps [simp del]

subsection \<open>Doubles\<close>

text \<open>The number of binary digits of a natural number.\<close>

fun bitlength :: "nat \<Rightarrow> int" where
  "bitlength n = (if n = 0 then 0 else bitlength (n div 2) + 1)"

declare bitlength.simps [simp del]

text \<open>For \<open>a > 0\<close>, the exponent \<open>e\<close> with \<open>2\<^sup>e \<le> a < 2\<^sup>e\<^sup>+\<^sup>1\<close>.\<close>

definition binade :: "real \<Rightarrow> int" where
  "binade a =
     (if 1 \<le> a then bitlength (nat \<lfloor>a\<rfloor>) - 1
      else - bitlength (nat (\<lceil>1 / a\<rceil> - 1)))"

definition pow2 :: "int \<Rightarrow> real" where
  "pow2 q = (if 0 \<le> q then 2 ^ nat q else 1 / 2 ^ nat (- q))"

text \<open>Rounding to the nearest integer, a tie going to the even one.\<close>

definition roundEven :: "real \<Rightarrow> int" where
  "roundEven m =
     (let f = \<lfloor>m\<rfloor>; d = m - real_of_int f
      in if d < 1 / 2 then f else if 1 / 2 < d then f + 1 else if even f then f else f + 1)"

text \<open>
  The value with a 53-bit significand (fewer below \<open>2\<^sup>-\<^sup>1\<^sup>0\<^sup>2\<^sup>2\<close>) nearest to a real, a tie
  going to the even significand: the double that IEEE 754 arithmetic and the JSON parser
  deliver, as long as its magnitude stays below \<open>2\<^sup>1\<^sup>0\<^sup>2\<^sup>4\<close>.
\<close>

definition nearestDouble :: "real \<Rightarrow> real" where
  "nearestDouble x =
     (if x = 0 then 0
      else let q = max (binade \<bar>x\<bar> - 52) (- 1074)
           in real_of_int (roundEven (x / pow2 q)) * pow2 q)"

text \<open>The result of an arithmetic operation on finite doubles: a finite double or an infinity.\<close>

datatype number = Num real | PosInfinity | NegInfinity

definition jsMultiply :: "real \<Rightarrow> real \<Rightarrow> number" where
  "jsMultiply a b =
     (let r = nearestDouble (a * b)
      in if 2 ^ 1024 \<le> r then PosInfinity
         else if r \<le> - (2 ^ 1024) then NegInfinity
         else Num r)"

subsection \<open>Printing\<close>

text \<open>
  \<open>Number::toString\<close> of an integral double \<open>N \<ge> 10\<^sup>2\<^sup>1\<close> prints the fewest significant
  digits that read back as \<open>N\<close>, and among those the nearest to \<open>N\<close>. \<open>candidate N k\<close> is
  that decimal with \<open>k\<close> significant digits, if there is one: only the two multiples of the
  power of ten around \<open>N\<close> can read back as \<open>N\<close>.
\<close>

definition candidate :: "nat \<Rightarrow> nat \<Rightarrow> nat option" where
  "candidate N k =
     (let q = length (digits N) - k;
          lo = (N div 10 ^ q) * 10 ^ q;
          hi = lo + 10 ^ q;
          okl = (nearestDouble (real lo) = real N);
          okh = (nearestDouble (real hi) = real N)
      in if okl \<and> okh then
           Some (if N - lo < hi - N then lo
                 else if hi - N < N - lo then hi
                 else if even (lo div 10 ^ q) then lo else hi)
         else if okl then Some lo
         else if okh then Some hi
         else None)"

text \<open>Seventeen significant digits always read back.\<close>

function shortestFrom :: "nat \<Rightarrow> nat \<Rightarrow> nat" where
  "shortestFrom N k =
     (if 17 < k then N
      else case candidate N k of Some c \<Rightarrow> c | None \<Rightarrow> shortestFrom N (Suc k))"
  by pat_completeness auto
termination
  by (relation "measure (\<lambda>(N, k). 18 - k)") auto

declare shortestFrom.simps [simp del]

definition exponentForm :: "nat \<Rightarrow> string" where
  "exponentForm N =
     (let c = shortestFrom N 1;
          ds = rev (dropWhile (\<lambda>ch. ch = CHR ''0'') (rev (digits c)))
      in (if length ds = 1 then ds else hd ds # ''.'' @ tl ds)
         @ ''e+'' @ digits (length (digits c) - 1))"

text \<open>
  \<open>x.toFixed(0)\<close>: an infinity prints its name; otherwise the sign is split off, and a
  magnitude from \<open>10\<^sup>2\<^sup>1\<close> on is printed by \<open>Number::toString\<close>, a smaller one as the
  integer nearest to it, the larger one on a tie.
\<close>

definition toFixed0 :: "number \<Rightarrow> string" where
  "toFixed0 v =
     (case v of
        PosInfinity \<Rightarrow> ''Infinity''
      | NegInfinity \<Rightarrow> ''-Infinity''
      | Num x \<Rightarrow>
          (if x < 0 then ''-'' else [])
          @ (if 10 ^ 21 \<le> \<bar>x\<bar> then exponentForm (nat \<lfloor>\<bar>x\<bar>\<rfloor>)
             else digits (nat (Math_round \<bar>x\<bar>))))"

section \<open>Confidence colours\<close>

text \<open>\<open>getConfidenceColor\<close> of \<open>App.jsx\<close> (lines 278-282).\<close>

definition getConfidenceColor :: "real \<Rightarrow> string" where
  "getConfidenceColor confidence =
     (if confidence > 0.7 then ''#28a745''
      else if confidence > 0.4 then ''#ffc107''
      else ''#dc3545'')"

text \<open>\<open>getConfidenceColor\<close> of the older \<open>App.js\<close> (lines 105-109).\<close>

definition getConfidenceColor_js :: "real \<Rightarrow> string" where
  "getConfidenceColor_js confidence =
     (if confidence > 0.7 then ''#28a745''
      else if confidence > 0.4 then ''#ffc107''
      else ''#dc3545'')"

section \<open>Detections and the overlay canvas\<close>

record Box =
  x1 :: real
  y1 :: real
  x2 :: real
  y2 :: real

record Detection =
  box :: Box
  det_class :: string
  confidence :: real

text \<open>
  \<open>(confidence * 100).toFixed(0)\<close>, as the overlay label (line 118) and the width of the
  confidence bar (line 414) print it. The page holds the confidence as a double: a decimal
  such as 0.85 stands for the double nearest to it.
\<close>

definition percent :: "real \<Rightarrow> string" where
  "percent c = toFixed0 (jsMultiply (nearestDouble c) 100)"

text \<open>
  What a 2D context has painted is kept as the list of painting calls since the bitmap
  was last reset, each with the style in force when it was made.
\<close>

datatype draw_op =
    StrokeRect string real real real real
  | FillRect string real real real real
  | FillText string string real real

record canvas =
  cwidth :: real
  cheight :: real
  painted :: "draw_op list"
  measureText :: "string \<Rightarrow> real"

text \<open>
  The body of the \<open>forEach\<close> in \<open>drawDetections\<close> (\<open>App.jsx\<close>, lines 104-125) for one
  detection. \<open>mirror\<close> is the value the enclosing render closed over; \<open>mt\<close> is the
  context's \<open>measureText(label).width\<close>.
\<close>

definition drawDetection :: "bool \<Rightarrow> real \<Rightarrow> (string \<Rightarrow> real) \<Rightarrow> Detection \<Rightarrow> draw_op list" where
  "drawDetection mirror_on width mt det =
     (let bx1 = (if mirror_on then width - x2 (box det) else x1 (box det));
          bx2 = (if mirror_on then width - x1 (box det) else x2 (box det));
          by1 = y1 (box det);
          by2 = y2 (box det);
          w = bx2 - bx1;
          h = by2 - by1;
          label = det_class det @ '' '' @ percent (confidence det) @ ''%'';
          textWidth = mt label;
          textHeight = 16
      in [StrokeRect (getConfidenceColor (confidence det)) bx1 by1 w h,
          FillRect ''rgba(0, 255, 0, 0.8)'' bx1 (max 0 (by1 - textHeight - 4))
            (textWidth + 8) (textHeight + 4),
          FillText ''#000'' label (bx1 + 4) (max 12 (by1 - 4))])"

text \<open>
  Setting \<open>canvas.width\<close> and \<open>canvas.height\<close> resets the bitmap and \<open>clearRect\<close> wipes
  it; then every detection is painted in order.
\<close>

definition paintDetections :: "bool \<Rightarrow> real \<Rightarrow> real \<Rightarrow> Detection list \<Rightarrow> canvas \<Rightarrow> canvas" where
  "paintDetections mirror_on width height detections c =
     c\<lparr>cwidth := width, cheight := height,
       painted := concat (map (drawDetection mirror_on width (measureText c)) detections)\<rparr>"

text \<open>The boxes outlined by a list of painting calls, by their corners.\<close>

definition strokedBoxes :: "draw_op list \<Rightarrow> Box list" where
  "strokedBoxes ops =
     concat (map (\<lambda>d. case d of
                          StrokeRect c x y w h \<Rightarrow> [\<lparr>x1 = x, y1 = y, x2 = x + w, y2 = y + h\<rparr>]
                        | _ \<Rightarrow> []) ops)"

text \<open>
  The confidence bar of the static result view (\<open>App.jsx\<close>, lines 411-417; \<open>App.js\<close>,
  lines 224-229): its CSS width and background colour.
\<close>

definition confidenceBarStyle :: "Detection \<Rightarrow> string \<times> string" where
  "confidenceBarStyle detection =
     (percent (confidence detection) @ ''%'', getConfidenceColor (confidence detection))"

definition confidenceBarStyle_js :: "Detection \<Rightarrow> string \<times> string" where
  "confidenceBarStyle_js detection =
     (percent (confidence detection) @ ''%'', getConfidenceColor_js (confidence detection))"

section \<open>Tick interval\<close>

text \<open>
  \<open>Math.max(100, Math.round(1000 / Math.max(1, liveFps)))\<close>, as written in \<open>startLive\<close>
  (line 178) and again in the rescheduling effect (line 220).
\<close>

definition intervalMs :: "int \<Rightarrow> int" where
  "intervalMs fps = max 100 (Math_round (1000 / real_of_int (max 1 fps)))"

section \<open>The upload form\<close>

record file_info =
  fname :: string
  ftype :: string
  fsize :: nat

record detect_result =
  device :: string
  processed_image :: string
  detections :: "Detection list"

text \<open>
  The upload form's state hooks (\<open>file_sel\<close> is the hook \<open>file\<close>), and the log of requests sent to \<open>/detect\<close>
  (the file each one carried).
\<close>

record upload =
  file_sel :: "file_info option"
  preview :: string
  error :: string
  loading :: bool
  result :: "detect_result option"
  posted :: "file_info list"

definition allowedTypes :: "string list" where
  "allowedTypes = [''image/jpeg'', ''image/png'', ''image/bmp'']"

definition maxSize :: nat where
  "maxSize = 5 * 1024 * 1024"

text \<open>
  \<open>handleFileChange\<close> of \<open>App.jsx\<close> (lines 70-92). The argument is
  \<open>e.target.files[0]\<close>, absent when the chooser was cancelled; \<open>createObjectURL\<close> is
  the browser's \<open>URL.createObjectURL\<close>.
\<close>

definition handleFileChange :: "(file_info \<Rightarrow> string) \<Rightarrow> file_info option \<Rightarrow> upload \<Rightarrow> upload" where
  "handleFileChange createObjectURL selectedFile u =
     (case selectedFile of
        None \<Rightarrow> u
      | Some f \<Rightarrow>
          if ftype f \<notin> set allowedTypes then
            u\<lparr>error := ''Invalid file type. Please upload a JPG, PNG, or BMP image.''\<rparr>
          else if fsize f > maxSize then
            u\<lparr>error := ''Image size is too large. Maximum size is 5MB.''\<rparr>
          else
            u\<lparr>file_sel := Some f, preview := createObjectURL f, error := [], result := None\<rparr>)"

text \<open>\<open>handleFileChange\<close> of \<open>App.js\<close> (lines 38-60).\<close>

definition handleFileChange_js :: "(file_info \<Rightarrow> string) \<Rightarrow> file_info option \<Rightarrow> upload \<Rightarrow> upload" where
  "handleFileChange_js createObjectURL selectedFile u =
     (case selectedFile of
        None \<Rightarrow> u
      | Some f \<Rightarrow>
          if ftype f \<notin> set allowedTypes then
            u\<lparr>error := ''Invalid file type. Please upload a JPG, PNG, or BMP image.''\<rparr>
          else if fsize f > maxSize then
            u\<lparr>error := ''Image size is too large. Maximum size is 5MB.''\<rparr>
          else
            u\<lparr>file_sel := Some f, preview := createObjectURL f, error := [], result := None\<rparr>)"

text \<open>
  \<open>handleSubmit\<close> (\<open>App.jsx\<close>, lines 228-259) up to the \<open>fetch\<close>: the only place of
  the upload path that sends a request.
\<close>

definition handleSubmit :: "upload \<Rightarrow> upload" where
  "handleSubmit u =
     (case file_sel u of
        None \<Rightarrow> u\<lparr>error := ''Please select an image file''\<rparr>
      | Some f \<Rightarrow> u\<lparr>loading := True, error := [], posted := posted u @ [f]\<rparr>)"

text \<open>The form shows \<open>error\<close> whenever it is a non-empty string (line 362).\<close>

definition errorShown :: "upload \<Rightarrow> bool" where
  "errorShown u = (error u \<noteq> [])"

section \<open>The live session\<close>

subsection \<open>State\<close>

text \<open>
  \<open>processLiveFrame\<close> and \<open>drawDetections\<close> are created anew by every render of the
  component, and each reads \<open>liveConf\<close> and \<open>mirror\<close> from the render that created it.
  The function handed to \<open>setInterval\<close> is the one of the render that made the call, so
  an interval timer carries, besides its delay, the two values its callback closed over.
\<close>

record timer =
  delay :: int
  cb_liveConf :: real
  cb_mirror :: bool

text \<open>The video element: the tracks of the attached \<open>MediaStream\<close>, if any, and its readiness.\<close>

record video =
  srcObject :: "nat list option"
  readyState :: nat
  videoWidth :: real
  videoHeight :: real

text \<open>
  What the continuation of \<open>processLiveFrame\<close> after \<open>await fetch\<close> still holds: the frame
  size and the \<open>mirror\<close> of its \<open>drawDetections\<close>.
\<close>

record in_flight =
  p_w :: real
  p_h :: real
  p_mirror :: bool

text \<open>
  How the request ends: a 2xx response carrying \<open>data.detections\<close> (possibly absent), or
  anything that throws inside the inner \<open>try\<close> (network error, unparsable body, non-ok
  status).
\<close>

datatype response = Ok "Detection list option" | Failed

text \<open>
  The state hooks and refs of the live page, followed by the browser's side: the active
  interval timers, the number of timer handles given out (handles are positive), the log
  of \<open>clearInterval\<close> calls, the log of stopped tracks, the log of requests sent to
  \<open>/detect/live\<close> (their \<open>conf\<close> parameter); and React's bookkeeping for the effect of
  lines 217-225: the dependencies \<open>[liveFps, liveRunning]\<close> it last ran with, and whether
  that run returned a cleanup. \<open>toasts\<close> records the \<open>showToast\<close> calls; their expiry
  after the timeout is not modelled.
\<close>

record live =
  liveRunning :: bool
  liveError :: string
  mirror :: bool
  liveFps :: int
  liveConf :: real
  toasts :: "(string \<times> string) list"
  intervalRef :: "nat option"
  videoRef :: "video option"
  canvasRef :: "canvas option"
  offscreenCanvasRef :: "(real \<times> real) option"
  timers :: "(nat \<times> timer) list"
  timerCount :: nat
  cleared :: "nat list"
  stopped :: "nat list"
  fetched :: "real list"
  effectDeps :: "int \<times> bool"
  effectCleanup :: bool

text \<open>The state after the first render: the \<open>useState\<close> and \<open>useRef\<close> initial values.\<close>

definition initial :: "video option \<Rightarrow> canvas option \<Rightarrow> live" where
  "initial v c =
     \<lparr>liveRunning = False, liveError = [], mirror = True, liveFps = 2, liveConf = 0.25,
      toasts = [], intervalRef = None, videoRef = v, canvasRef = c,
      offscreenCanvasRef = None, timers = [], timerCount = 0, cleared = [], stopped = [],
      fetched = [], effectDeps = (2, False), effectCleanup = False\<rparr>"

text \<open>
  The page shows the Stop button exactly when \<open>liveRunning\<close> holds (line 437); the
  boolean is the only session state the component stores.
\<close>

datatype SessionState = Idle | Running

definition sessionState :: "live \<Rightarrow> SessionState" where
  "sessionState s = (if liveRunning s then Running else Idle)"

subsection \<open>Browser primitives\<close>

definition setInterval :: "timer \<Rightarrow> live \<Rightarrow> nat \<times> live" where
  "setInterval t s =
     (Suc (timerCount s),
      s\<lparr>timers := timers s @ [(Suc (timerCount s), t)], timerCount := Suc (timerCount s)\<rparr>)"

definition clearInterval :: "nat \<Rightarrow> live \<Rightarrow> live" where
  "clearInterval i s =
     s\<lparr>timers := filter (\<lambda>p. fst p \<noteq> i) (timers s), cleared := cleared s @ [i]\<rparr>"

text \<open>The video element has buffered a frame of the given size (a browser event).\<close>

definition videoLoaded :: "nat \<Rightarrow> real \<Rightarrow> real \<Rightarrow> live \<Rightarrow> live" where
  "videoLoaded ready w h s =
     (case videoRef s of
        None \<Rightarrow> s
      | Some v \<Rightarrow> s\<lparr>videoRef := Some (v\<lparr>readyState := ready, videoWidth := w, videoHeight := h\<rparr>)\<rparr>)"

subsection \<open>Functions of the component\<close>

text \<open>\<open>showToast\<close> (lines 38-44).\<close>

definition showToast :: "string \<Rightarrow> string \<Rightarrow> live \<Rightarrow> live" where
  "showToast message kind s = s\<lparr>toasts := toasts s @ [(message, kind)]\<rparr>"

text \<open>\<open>drawDetections\<close> (lines 95-126), with the \<open>mirror\<close> of its render.\<close>

definition drawDetections :: "bool \<Rightarrow> real \<Rightarrow> real \<Rightarrow> Detection list \<Rightarrow> live \<Rightarrow> live" where
  "drawDetections mirror_on width height dets s =
     (case canvasRef s of
        None \<Rightarrow> s
      | Some c \<Rightarrow> s\<lparr>canvasRef := Some (paintDetections mirror_on width height dets c)\<rparr>)"

text \<open>\<open>stopLive\<close> (lines 186-204).\<close>

definition stopLive :: "live \<Rightarrow> live" where
  "stopLive s =
     (let s1 = s\<lparr>liveRunning := False\<rparr>;
          s2 = (case intervalRef s1 of
                  None \<Rightarrow> s1
                | Some i \<Rightarrow> (clearInterval i s1)\<lparr>intervalRef := None\<rparr>);
          s3 = (case videoRef s2 of
                  None \<Rightarrow> s2
                | Some v \<Rightarrow>
                    (case srcObject v of
                       None \<Rightarrow> s2
                     | Some tracks \<Rightarrow>
                         s2\<lparr>stopped := stopped s2 @ tracks,
                            videoRef := Some (v\<lparr>srcObject := None\<rparr>)\<rparr>))
      in case canvasRef s3 of
           None \<Rightarrow> s3
         | Some c \<Rightarrow> s3\<lparr>canvasRef := Some (c\<lparr>painted := []\<rparr>)\<rparr>)"

text \<open>
  \<open>startLive\<close> (lines 167-184). \<open>media\<close> is what \<open>getUserMedia\<close> resolves to (\<open>None\<close>
  when it rejects) and \<open>played\<close> says whether \<open>video.play()\<close> resolved. Here the two
  awaits are taken in one step: nothing else happens between the press of Start Live and
  the end of the function.
\<close>

definition startLive :: "nat list option \<Rightarrow> bool \<Rightarrow> live \<Rightarrow> live" where
  "startLive media played s =
     (let s0 = s\<lparr>liveError := []\<rparr>;
          failed = (\<lambda>s'. (showToast ''Could not access the webcam.'' ''error'' s')\<lparr>liveRunning := False\<rparr>);
          loop = (\<lambda>s'.
            let s2 = s'\<lparr>liveRunning := True\<rparr>;
                interval = intervalMs (liveFps s);
                (i, s3) = setInterval
                  \<lparr>delay = interval, cb_liveConf = liveConf s, cb_mirror = mirror s\<rparr> s2
            in s3\<lparr>intervalRef := Some i\<rparr>)
      in case media of
           None \<Rightarrow> failed s0
         | Some stream \<Rightarrow>
             (case videoRef s0 of
                None \<Rightarrow> loop s0
              | Some v \<Rightarrow>
                  let s1 = s0\<lparr>videoRef := Some (v\<lparr>srcObject := Some stream\<rparr>)\<rparr>
                  in if played then loop s1 else failed s1))"

text \<open>
  The same function in the pieces that run without interruption; between them anything
  else may happen on the page. What the function closed over (\<open>liveFps\<close>, and through
  \<open>processLiveFrame\<close> also \<open>liveConf\<close> and \<open>mirror\<close>) is fixed when Start Live is pressed.
\<close>

record start_closure =
  sc_liveFps :: int
  sc_liveConf :: real
  sc_mirror :: bool

text \<open>Lines 168-170, up to \<open>await getUserMedia\<close>.\<close>

definition startLive_pressed :: "live \<Rightarrow> live \<times> start_closure" where
  "startLive_pressed s =
     (s\<lparr>liveError := []\<rparr>,
      \<lparr>sc_liveFps = liveFps s, sc_liveConf = liveConf s, sc_mirror = mirror s\<rparr>)"

text \<open>The catch block, lines 180-183.\<close>

definition startLive_failed :: "live \<Rightarrow> live" where
  "startLive_failed s =
     (showToast ''Could not access the webcam.'' ''error'' s)\<lparr>liveRunning := False\<rparr>"

text \<open>Lines 176-179.\<close>

definition startLive_loop :: "start_closure \<Rightarrow> live \<Rightarrow> live" where
  "startLive_loop k s =
     (let s2 = s\<lparr>liveRunning := True\<rparr>;
          interval = intervalMs (sc_liveFps k);
          (i, s3) = setInterval
            \<lparr>delay = interval, cb_liveConf = sc_liveConf k, cb_mirror = sc_mirror k\<rparr> s2
      in s3\<lparr>intervalRef := Some i\<rparr>)"

text \<open>
  \<open>getUserMedia\<close> has settled: lines 170-173, up to \<open>await play()\<close>. The second component
  says whether the function now waits for \<open>play()\<close>; without a video element it runs to
  its end.
\<close>

definition startLive_afterMedia :: "start_closure \<Rightarrow> nat list option \<Rightarrow> live \<Rightarrow> live \<times> bool" where
  "startLive_afterMedia k media s =
     (case media of
        None \<Rightarrow> (startLive_failed s, False)
      | Some stream \<Rightarrow>
          (case videoRef s of
             None \<Rightarrow> (startLive_loop k s, False)
           | Some v \<Rightarrow> (s\<lparr>videoRef := Some (v\<lparr>srcObject := Some stream\<rparr>)\<rparr>, True)))"

text \<open>\<open>play()\<close> has settled: the rest of the function.\<close>

definition startLive_afterPlay :: "start_closure \<Rightarrow> bool \<Rightarrow> live \<Rightarrow> live" where
  "startLive_afterPlay k played s = (if played then startLive_loop k s else startLive_failed s)"

text \<open>
  \<open>processLiveFrame\<close> (lines 129-165) as the callback of timer \<open>t\<close>, up to the \<open>fetch\<close>.
  \<open>blob\<close> says whether \<open>toBlob\<close> produced a blob. The result is the new state and, when
  a request was sent, what its continuation holds.
\<close>

definition processLiveFrame :: "timer \<Rightarrow> bool \<Rightarrow> live \<Rightarrow> live \<times> in_flight option" where
  "processLiveFrame t blob s =
     (case videoRef s of
        None \<Rightarrow> (s, None)
      | Some v \<Rightarrow>
          if readyState v < 2 then (s, None)
          else
            let w = videoWidth v;
                h = videoHeight v;
                s1 = s\<lparr>offscreenCanvasRef := Some (w, h)\<rparr>
            in if \<not> blob then (s1, None)
               else (s1\<lparr>fetched := fetched s1 @ [cb_liveConf t]\<rparr>,
                     Some \<lparr>p_w = w, p_h = h, p_mirror = cb_mirror t\<rparr>))"

text \<open>The continuation of \<open>processLiveFrame\<close> once the request has ended (lines 153-161).\<close>

definition processLiveFrame_resume :: "in_flight \<Rightarrow> response \<Rightarrow> live \<Rightarrow> live" where
  "processLiveFrame_resume p r s =
     (case r of
        Ok d \<Rightarrow>
          (drawDetections (p_mirror p) (p_w p) (p_h p) (case d of None \<Rightarrow> [] | Some ds \<Rightarrow> ds) s)
            \<lparr>liveError := []\<rparr>
      | Failed \<Rightarrow> stopLive (showToast ''Live detection error.'' ''error'' s))"

subsection \<open>The rescheduling effect\<close>

text \<open>The body of the effect of lines 217-225, run in a render of state \<open>s\<close>.\<close>

definition fpsEffect :: "live \<Rightarrow> live" where
  "fpsEffect s =
     (if \<not> liveRunning s then s\<lparr>effectCleanup := False\<rparr>
      else
        let s1 = (case intervalRef s of None \<Rightarrow> s | Some i \<Rightarrow> clearInterval i s);
            interval = intervalMs (liveFps s);
            (i, s2) = setInterval
              \<lparr>delay = interval, cb_liveConf = liveConf s, cb_mirror = mirror s\<rparr> s1
        in s2\<lparr>intervalRef := Some i, effectCleanup := True\<rparr>)"

text \<open>The cleanup that the effect returns (lines 222-224).\<close>

definition fpsCleanup :: "live \<Rightarrow> live" where
  "fpsCleanup s = (case intervalRef s of None \<Rightarrow> s | Some i \<Rightarrow> clearInterval i s)"

text \<open>
  What React does after a render: when \<open>liveFps\<close> or \<open>liveRunning\<close> differs from the
  values the effect last ran with, the cleanup of that run (if it returned one) runs,
  then the effect of the new render. Otherwise nothing happens, whatever else changed.
\<close>

definition rerender :: "live \<Rightarrow> live" where
  "rerender s =
     (if effectDeps s = (liveFps s, liveRunning s) then s
      else
        let s1 = (if effectCleanup s then fpsCleanup s else s)
        in (fpsEffect s1)\<lparr>effectDeps := (liveFps s, liveRunning s)\<rparr>)"

subsection \<open>Events\<close>

text \<open>A handler or continuation runs to its end, then the component re-renders.\<close>

definition onStartLive :: "nat list option \<Rightarrow> bool \<Rightarrow> live \<Rightarrow> live" where
  "onStartLive media played s = rerender (startLive media played s)"

definition onStopLive :: "live \<Rightarrow> live" where
  "onStopLive s = rerender (stopLive s)"

definition setLiveFps :: "int \<Rightarrow> live \<Rightarrow> live" where
  "setLiveFps v s = rerender (s\<lparr>liveFps := v\<rparr>)"

definition setLiveConf :: "real \<Rightarrow> live \<Rightarrow> live" where
  "setLiveConf v s = rerender (s\<lparr>liveConf := v\<rparr>)"

definition setMirror :: "bool \<Rightarrow> live \<Rightarrow> live" where
  "setMirror b s = rerender (s\<lparr>mirror := b\<rparr>)"

text \<open>
  The user goes to the Upload page (\<open>setPage('upload')\<close>, line 308): the section of lines
  433-461 is unmounted and both refs become \<open>null\<close>. The session hooks stay as they are.
\<close>

definition leaveLivePage :: "live \<Rightarrow> live" where
  "leaveLivePage s = rerender (s\<lparr>videoRef := None, canvasRef := None\<rparr>)"

text \<open>The timer with handle \<open>i\<close> fires: nothing runs unless it is still active.\<close>

definition fire :: "nat \<Rightarrow> bool \<Rightarrow> live \<Rightarrow> live \<times> in_flight option" where
  "fire i blob s =
     (case map_of (timers s) i of
        None \<Rightarrow> (s, None)
      | Some t \<Rightarrow> processLiveFrame t blob s)"

definition onResponse :: "in_flight \<Rightarrow> response \<Rightarrow> live \<Rightarrow> live" where
  "onResponse p r s = rerender (processLiveFrame_resume p r s)"

text \<open>The active timers are exactly the one whose handle \<open>intervalRef\<close> holds, if any.\<close>

definition owned :: "live \<Rightarrow> bool" where
  "owned s = (map fst (timers s) = (case intervalRef s of None \<Rightarrow> [] | Some i \<Rightarrow> [i]))"

text \<open>The effect has run with the current \<open>liveFps\<close> and \<open>liveRunning\<close>: no re-render is due.\<close>

definition settled :: "live \<Rightarrow> bool" where
  "settled s = (effectDeps s = (liveFps s, liveRunning s))"

text \<open>An idle session: not running, no timer handle kept, no stream attached to the video.\<close>

definition idle :: "live \<Rightarrow> bool" where
  "idle s =
     (\<not> liveRunning s \<and> intervalRef s = None \<and>
      (case videoRef s of None \<Rightarrow> True | Some v \<Rightarrow> srcObject v = None))"

subsection \<open>A concrete session\<close>

definition person :: Detection where
  "person = \<lparr>box = \<lparr>x1 = 100, y1 = 50, x2 = 200, y2 = 150\<rparr>,
             det_class = ''person'', confidence = 0.85\<rparr>"

definition page0 :: live where
  "page0 = initial
     (Some \<lparr>srcObject = None, readyState = 0, videoWidth = 0, videoHeight = 0\<rparr>)
     (Some \<lparr>cwidth = 300, cheight = 150, painted = [],
            measureText = (\<lambda>label. 7 * real (length label))\<rparr>)"

text \<open>Start Live is pressed and the camera is granted, with one track.\<close>

definition starting0 :: live where
  "starting0 = onStartLive (Some [1]) True page0"

text \<open>A 640x480 frame is buffered.\<close>

definition live0 :: live where
  "live0 = videoLoaded 4 640 480 starting0"

text \<open>The timer has fired once and its request is out.\<close>

definition ticked0 :: live where
  "ticked0 = fst (fire 2 True live0)"

definition request0 :: in_flight where
  "request0 = \<lparr>p_w = 640, p_h = 480, p_mirror = True\<rparr>"

text \<open>The user unticks Mirror and moves the confidence slider to 0.5 while the session runs.\<close>

definition retuned0 :: live where
  "retuned0 = setLiveConf 0.5 (setMirror False live0)"

text \<open>Stop Live is pressed with that request out; then its response arrives and is painted.\<close>

definition lateIdle0 :: live where
  "lateIdle0 = onResponse request0 (Ok (Some [person])) (onStopLive ticked0)"

text \<open>The camera is granted but \<open>play()\<close> rejects.\<close>

definition rejected0 :: live where
  "rejected0 = onStartLive (Some [1]) False page0"

text \<open>What a press of Start Live on the fresh page closes over.\<close>

definition closure0 :: start_closure where
  "closure0 = snd (startLive_pressed page0)"

text \<open>
  Start Live is pressed, a call of \<open>stopLive\<close> comes before the camera is granted, and the
  start then runs on to its end.
\<close>

definition stoppedWhileStarting0 :: live where
  "stoppedWhileStarting0 =
     rerender (startLive_afterPlay closure0 True
       (fst (startLive_afterMedia closure0 (Some [1])
         (onStopLive (fst (startLive_pressed page0))))))"

text \<open>
  Start Live is pressed twice while the camera prompt is open. Both requests are granted,
  with tracks 1 and 2, then the first \<open>play()\<close> resolves and the page re-renders, then
  the second; a 640x480 frame is buffered.
\<close>

definition doubled0 :: live where
  "doubled0 =
     videoLoaded 4 640 480
       (rerender (startLive_afterPlay closure0 True
         (rerender (startLive_afterPlay closure0 True
           (fst (startLive_afterMedia closure0 (Some [2])
             (fst (startLive_afterMedia closure0 (Some [1])
               (fst (startLive_pressed (fst (startLive_pressed page0))))))))))))"

text \<open>Its timer 3 has fired once and the request is out.\<close>

definition doubledTicked0 :: live where
  "doubledTicked0 = fst (fire 3 True doubled0)"

subsection \<open>Concrete uploads\<close>

definition blobURL :: "file_info \<Rightarrow> string" where
  "blobURL f = ''blob:'' @ fname f"

definition photo :: file_info where
  "photo = \<lparr>fname = ''cat.png'', ftype = ''image/png'', fsize = 204800\<rparr>"

definition report :: file_info where
  "report = \<lparr>fname = ''report.pdf'', ftype = ''application/pdf'', fsize = 1024\<rparr>"

definition poster :: file_info where
  "poster = \<lparr>fname = ''poster.bmp'', ftype = ''image/bmp'', fsize = 6291456\<rparr>"

definition upload0 :: upload where
  "upload0 = \<lparr>file_sel = None, preview = [], error = [], loading = False, result = None, posted = []\<rparr>"

text \<open>The photo was selected and its detection result has arrived.\<close>

definition upload1 :: upload where
  "upload1 = (handleFileChange blobURL (Some photo) upload0)
     \<lparr>result := Some \<lparr>device = ''cpu'', processed_image = ''/uploads/cat.png'',
                       detections = [person]\<rparr>\<rparr>"

section \<open>Properties of the pure functions\<close>

lemmas double_defs =
  percent_def toFixed0_def jsMultiply_def nearestDouble_def binade_def pow2_def
  roundEven_def Math_round_def Let_def

lemma percent_person: "percent (confidence person) = ''85''"
  by (simp add: person_def double_defs bitlength.simps digits.simps)

lemma label_person:
  "det_class person @ '' '' @ percent (confidence person) @ ''%'' = ''person 85%''"
  by (simp add: percent_person) (simp add: person_def)

text \<open>Products that are not the decimal product: 28.5 and 1.5 are not what the machine gets.\<close>

lemma percent_ties:
  "percent 0.285 = ''28''" "percent 0.015 = ''2''" "percent 0.125 = ''13''"
  by (simp_all add: double_defs bitlength.simps digits.simps)

text \<open>From \<open>10\<^sup>2\<^sup>1\<close> on the exponent form is printed.\<close>

lemma nearestDouble_1e19: "nearestDouble 10000000000000000000 = 10000000000000000000"
  by (simp add: nearestDouble_def binade_def pow2_def roundEven_def Let_def bitlength.simps)

lemma nearestDouble_1e21: "nearestDouble 1000000000000000000000 = 1000000000000000000000"
  by (simp add: nearestDouble_def binade_def pow2_def roundEven_def Let_def bitlength.simps)

lemma nearestDouble_2e21: "nearestDouble 2000000000000000000000 = 2000000000000000000000"
  by (simp add: nearestDouble_def binade_def pow2_def roundEven_def Let_def bitlength.simps)

lemma digits_1e21: "digits 1000000000000000000000 = ''1000000000000000000000''"
  by (simp add: digits.simps)

lemma candidate_1e21: "candidate 1000000000000000000000 (Suc 0) = Some 1000000000000000000000"
  unfolding candidate_def digits_1e21 Let_def
  apply (simp only: list.size length_Cons)
  apply (simp add: nearestDouble_1e21 nearestDouble_2e21)
  done

lemma shortest_1e21: "shortestFrom 1000000000000000000000 (Suc 0) = 1000000000000000000000"
  apply (subst shortestFrom.simps)
  apply (simp add: candidate_1e21)
  done

lemma exponentForm_1e21: "exponentForm 1000000000000000000000 = ''1e+21''"
  unfolding exponentForm_def Let_def
  apply (simp add: shortest_1e21 digits_1e21)
  apply (simp add: digits.simps)
  done

lemma percent_large: "percent 10000000000000000000 = ''1e+21''"
  using exponentForm_1e21
  by (simp add: percent_def nearestDouble_1e19 jsMultiply_def nearestDouble_1e21 toFixed0_def)

lemma startLive_schedules:
  "last (timers (startLive (Some tr) True s)) =
     (Suc (timerCount s),
      \<lparr>delay = intervalMs (liveFps s), cb_liveConf = liveConf s, cb_mirror = mirror s\<rparr>)
   \<and> intervalRef (startLive (Some tr) True s) = Some (Suc (timerCount s))"
  by (simp add: startLive_def setInterval_def Let_def split: option.splits)

lemma fpsEffect_schedules:
  "liveRunning s \<Longrightarrow>
   last (timers (fpsEffect s)) =
     (Suc (timerCount s),
      \<lparr>delay = intervalMs (liveFps s), cb_liveConf = liveConf s, cb_mirror = mirror s\<rparr>)
   \<and> intervalRef (fpsEffect s) = Some (Suc (timerCount s))"
  by (simp add: fpsEffect_def setInterval_def clearInterval_def Let_def split: option.splits)

text \<open>\<open>startLive\<close> is its pieces run one after the other.\<close>

lemma startLive_pieces:
  "startLive media played s =
     (let (s0, k) = startLive_pressed s;
          (s1, waits) = startLive_afterMedia k media s0
      in if waits then startLive_afterPlay k played s1 else s1)"
  by (simp add: startLive_def startLive_pressed_def startLive_afterMedia_def
      startLive_afterPlay_def startLive_loop_def startLive_failed_def Let_def
      split: option.splits)

subsection \<open>The concrete session, computed\<close>

lemma page0_eq:
  "page0 =
    \<lparr>liveRunning = False, liveError = [], mirror = True, liveFps = 2, liveConf = 0.25,
     toasts = [], intervalRef = None,
     videoRef = Some \<lparr>srcObject = None, readyState = 0, videoWidth = 0, videoHeight = 0\<rparr>,
     canvasRef = Some \<lparr>cwidth = 300, cheight = 150, painted = [],
                        measureText = (\<lambda>label. 7 * real (length label))\<rparr>,
     offscreenCanvasRef = None, timers = [], timerCount = 0, cleared = [], stopped = [],
     fetched = [], effectDeps = (2, False), effectCleanup = False\<rparr>"
  by (simp add: page0_def initial_def)

lemma starting0_eq:
  "starting0 =
    \<lparr>liveRunning = True, liveError = [], mirror = True, liveFps = 2, liveConf = 0.25,
     toasts = [], intervalRef = Some 2,
     videoRef = Some \<lparr>srcObject = Some [1], readyState = 0, videoWidth = 0, videoHeight = 0\<rparr>,
     canvasRef = Some \<lparr>cwidth = 300, cheight = 150, painted = [],
                        measureText = (\<lambda>label. 7 * real (length label))\<rparr>,
     offscreenCanvasRef = None,
     timers = [(2, \<lparr>delay = 500, cb_liveConf = 0.25, cb_mirror = True\<rparr>)],
     timerCount = 2, cleared = [1], stopped = [], fetched = [],
     effectDeps = (2, True), effectCleanup = True\<rparr>"
  by (simp add: starting0_def page0_def initial_def onStartLive_def startLive_def rerender_def
      fpsEffect_def setInterval_def clearInterval_def intervalMs_def Math_round_def Let_def)

lemma live0_eq:
  "live0 =
    \<lparr>liveRunning = True, liveError = [], mirror = True, liveFps = 2, liveConf = 0.25,
     toasts = [], intervalRef = Some 2,
     videoRef = Some \<lparr>srcObject = Some [1], readyState = 4, videoWidth = 640, videoHeight = 480\<rparr>,
     canvasRef = Some \<lparr>cwidth = 300, cheight = 150, painted = [],
                        measureText = (\<lambda>label. 7 * real (length label))\<rparr>,
     offscreenCanvasRef = None,
     timers = [(2, \<lparr>delay = 500, cb_liveConf = 0.25, cb_mirror = True\<rparr>)],
     timerCount = 2, cleared = [1], stopped = [], fetched = [],
     effectDeps = (2, True), effectCleanup = True\<rparr>"
  by (simp add: live0_def starting0_eq videoLoaded_def)

section \<open>Tick interval (C3)\<close>

text \<open>
  C3. For every frame rate from 1 to 10, the interval of the timer that \<open>startLive\<close>
  creates, and of the one the rescheduling effect creates, is
  \<open>max(100, round(1000 / max(1, fps)))\<close> milliseconds, which on this range is also
  \<open>max(100, round(1000 / fps))\<close>; 2 gives 500, 10 gives 100, 1 gives 1000, and no
  interval is below 100.
\<close>

theorem C3_tick_interval:
  assumes "1 \<le> fps" and "fps \<le> 10" and "liveFps s = fps"
  shows "intervalMs fps = max 100 (round (1000 / max 1 (real_of_int fps)))
       \<and> intervalMs fps = max 100 (round (1000 / real_of_int fps))
       \<and> 100 \<le> intervalMs fps
       \<and> delay (snd (last (timers (startLive (Some tr) True s))))
            = max 100 (round (1000 / max 1 (real_of_int fps)))
       \<and> (liveRunning s \<longrightarrow>
            delay (snd (last (timers (fpsEffect s))))
              = max 100 (round (1000 / max 1 (real_of_int fps))))
       \<and> intervalMs 2 = 500 \<and> intervalMs 10 = 100 \<and> intervalMs 1 = 1000"
proof -
  have a: "intervalMs fps = max 100 (round (1000 / max 1 (real_of_int fps)))"
    using assms(1) by (simp add: intervalMs_def Math_round_def round_def max_def)
  have b: "max 1 (real_of_int fps) = real_of_int fps"
    using assms(1) by simp
  have c: "100 \<le> intervalMs fps"
    by (simp add: intervalMs_def)
  have d: "delay (snd (last (timers (startLive (Some tr) True s)))) = intervalMs fps"
    using assms(3) by (simp add: startLive_schedules)
  have e: "liveRunning s \<Longrightarrow> delay (snd (last (timers (fpsEffect s)))) = intervalMs fps"
    using assms(3) by (simp add: fpsEffect_schedules)
  have f: "intervalMs 2 = 500 \<and> intervalMs 10 = 100 \<and> intervalMs 1 = 1000"
    by (simp add: intervalMs_def Math_round_def)
  from a b c d e f show ?thesis by metis
qed

theorem C3_tick_interval_witness:
  "(1::int) \<le> 7 \<and> (7::int) \<le> 10 \<and> liveFps (live0\<lparr>liveFps := 7\<rparr>) = 7
   \<and> liveRunning (live0\<lparr>liveFps := 7\<rparr>) \<and> intervalMs 7 = 143
   \<and> delay (snd (last (timers (startLive (Some [1]) True (live0\<lparr>liveFps := 7\<rparr>))))) = 143
   \<and> delay (snd (last (timers (fpsEffect (live0\<lparr>liveFps := 7\<rparr>))))) = 143"
  using C3_tick_interval [of 7 "live0\<lparr>liveFps := 7\<rparr>" "[1]"]
  by (simp add: live0_eq round_def)

text \<open>The whole table, and the floor for any number at all.\<close>

lemma intervalMs_table:
  "map intervalMs [1, 2, 3, 4, 5, 6, 7, 8, 9, 10] =
     [1000, 500, 333, 250, 200, 167, 143, 125, 111, 100]"
  by (simp add: intervalMs_def Math_round_def)

lemma intervalMs_floor: "100 \<le> intervalMs fps"
  by (simp add: intervalMs_def)

section \<open>Mirrored boxes (C4)\<close>

lemma drawDetection_mirrored:
  "drawDetection True width mt det =
     [StrokeRect (getConfidenceColor (confidence det))
        (width - x2 (box det)) (y1 (box det))
        (x2 (box det) - x1 (box det)) (y2 (box det) - y1 (box det)),
      FillRect ''rgba(0, 255, 0, 0.8)'' (width - x2 (box det)) (max 0 (y1 (box det) - 20))
        (mt (det_class det @ '' '' @ percent (confidence det) @ ''%'') + 8) 20,
      FillText ''#000'' (det_class det @ '' '' @ percent (confidence det) @ ''%'')
        (width - x2 (box det) + 4) (max 12 (y1 (box det) - 4))]"
  by (simp add: drawDetection_def Let_def)

lemma drawDetection_mirrored_fun:
  "drawDetection True width mt =
     (\<lambda>det. [StrokeRect (getConfidenceColor (confidence det))
        (width - x2 (box det)) (y1 (box det))
        (x2 (box det) - x1 (box det)) (y2 (box det) - y1 (box det)),
      FillRect ''rgba(0, 255, 0, 0.8)'' (width - x2 (box det)) (max 0 (y1 (box det) - 20))
        (mt (det_class det @ '' '' @ percent (confidence det) @ ''%'') + 8) 20,
      FillText ''#000'' (det_class det @ '' '' @ percent (confidence det) @ ''%'')
        (width - x2 (box det) + 4) (max 12 (y1 (box det) - 4))])"
  by (rule ext) (simp add: drawDetection_mirrored)

lemma strokedBoxes_append: "strokedBoxes (xs @ ys) = strokedBoxes xs @ strokedBoxes ys"
  by (simp add: strokedBoxes_def)

lemma strokedBoxes_drawn:
  "strokedBoxes (concat (map (drawDetection m width mt) dets)) =
     map (\<lambda>det. \<lparr>x1 = (if m then width - x2 (box det) else x1 (box det)), y1 = y1 (box det),
                  x2 = (if m then width - x1 (box det) else x2 (box det)), y2 = y2 (box det)\<rparr>) dets"
proof (induction dets)
  case Nil
  show ?case by (simp add: strokedBoxes_def)
next
  case (Cons det dets)
  have "strokedBoxes (drawDetection m width mt det) =
     [\<lparr>x1 = (if m then width - x2 (box det) else x1 (box det)), y1 = y1 (box det),
       x2 = (if m then width - x1 (box det) else x2 (box det)), y2 = y2 (box det)\<rparr>]"
    by (simp add: drawDetection_def strokedBoxes_def Let_def)
  with Cons show ?case by (simp add: strokedBoxes_append)
qed

lemma drawDetections_canvas:
  "canvasRef (drawDetections m width height dets s) =
     map_option (paintDetections m width height dets) (canvasRef s)"
  by (simp add: drawDetections_def split: option.splits)

text \<open>
  C4. With \<open>mirror\<close> on, the renderer resizes and clears the overlay and outlines every
  detection from \<open>width - x2\<close> to \<open>width - x1\<close>, its vertical extent unchanged; the
  continuation of a tick hands it the detections of the response. For width 640 and the
  box (100, 50, 200, 150) of class person with confidence 0.85, the outline runs from 440
  to 540, it is stroked in the high-confidence green, and the label reads \<open>person 85%\<close>;
  so it is painted when the response to the first tick of the concrete session arrives.
\<close>

theorem C4_mirror:
  "canvasRef (drawDetections True width height dets s) =
     map_option (\<lambda>c. c\<lparr>cwidth := width, cheight := height,
        painted := concat (map (\<lambda>det.
          [StrokeRect (getConfidenceColor (confidence det))
             (width - x2 (box det)) (y1 (box det))
             (x2 (box det) - x1 (box det)) (y2 (box det) - y1 (box det)),
           FillRect ''rgba(0, 255, 0, 0.8)'' (width - x2 (box det))
             (max 0 (y1 (box det) - 20))
             (measureText c (det_class det @ '' '' @ percent (confidence det) @ ''%'') + 8) 20,
           FillText ''#000'' (det_class det @ '' '' @ percent (confidence det) @ ''%'')
             (width - x2 (box det) + 4) (max 12 (y1 (box det) - 4))]) dets)\<rparr>)
       (canvasRef s)
   \<and> map_option (strokedBoxes \<circ> painted) (canvasRef (drawDetections True width height dets s)) =
       map_option (\<lambda>c. map (\<lambda>det. \<lparr>x1 = width - x2 (box det), y1 = y1 (box det),
                                      x2 = width - x1 (box det), y2 = y2 (box det)\<rparr>) dets)
         (canvasRef s)
   \<and> processLiveFrame_resume \<lparr>p_w = width, p_h = height, p_mirror = True\<rparr> (Ok (Some dets)) s =
       (drawDetections True width height dets s)\<lparr>liveError := []\<rparr>
   \<and> map_option painted (canvasRef (drawDetections True 640 480 [person] s)) =
       map_option (\<lambda>c. [StrokeRect ''#28a745'' 440 50 100 100,
                          FillRect ''rgba(0, 255, 0, 0.8)'' 440 30
                            (measureText c ''person 85%'' + 8) 20,
                          FillText ''#000'' ''person 85%'' 444 46])
         (canvasRef s)
   \<and> map_option (strokedBoxes \<circ> painted) (canvasRef (drawDetections True 640 480 [person] s)) =
       map_option (\<lambda>c. [\<lparr>x1 = 440, y1 = 50, x2 = 540, y2 = 150\<rparr>]) (canvasRef s)
   \<and> getConfidenceColor (confidence person) = getConfidenceColor 0.71
   \<and> fire 2 True live0 = (ticked0, Some \<lparr>p_w = 640, p_h = 480, p_mirror = True\<rparr>)
   \<and> map_option painted
        (canvasRef (onResponse \<lparr>p_w = 640, p_h = 480, p_mirror = True\<rparr>
                      (Ok (Some [person])) ticked0)) =
       Some [StrokeRect ''#28a745'' 440 50 100 100,
             FillRect ''rgba(0, 255, 0, 0.8)'' 440 30 78 20,
             FillText ''#000'' ''person 85%'' 444 46]"
proof -
  have a: "canvasRef (drawDetections True width height dets s) =
     map_option (\<lambda>c. c\<lparr>cwidth := width, cheight := height,
        painted := concat (map (\<lambda>det.
          [StrokeRect (getConfidenceColor (confidence det))
             (width - x2 (box det)) (y1 (box det))
             (x2 (box det) - x1 (box det)) (y2 (box det) - y1 (box det)),
           FillRect ''rgba(0, 255, 0, 0.8)'' (width - x2 (box det))
             (max 0 (y1 (box det) - 20))
             (measureText c (det_class det @ '' '' @ percent (confidence det) @ ''%'') + 8) 20,
           FillText ''#000'' (det_class det @ '' '' @ percent (confidence det) @ ''%'')
             (width - x2 (box det) + 4) (max 12 (y1 (box det) - 4))]) dets)\<rparr>)
       (canvasRef s)" for width height dets
    by (cases "canvasRef s")
      (simp_all add: drawDetections_canvas paintDetections_def drawDetection_mirrored_fun)
  have b: "map_option (strokedBoxes \<circ> painted) (canvasRef (drawDetections True width height dets s)) =
       map_option (\<lambda>c. map (\<lambda>det. \<lparr>x1 = width - x2 (box det), y1 = y1 (box det),
                                      x2 = width - x1 (box det), y2 = y2 (box det)\<rparr>) dets)
         (canvasRef s)" for width height dets
    by (cases "canvasRef s")
      (simp_all add: drawDetections_canvas paintDetections_def strokedBoxes_drawn)
  have c: "processLiveFrame_resume \<lparr>p_w = width, p_h = height, p_mirror = True\<rparr> (Ok (Some dets)) s =
       (drawDetections True width height dets s)\<lparr>liveError := []\<rparr>"
    by (simp add: processLiveFrame_resume_def)
  have col: "getConfidenceColor (confidence person) = ''#28a745''"
    by (simp add: person_def getConfidenceColor_def)
  have col': "getConfidenceColor 0.71 = ''#28a745''"
    by (simp add: getConfidenceColor_def)
  have one: "drawDetection True 640 mt person =
       [StrokeRect ''#28a745'' 440 50 100 100,
        FillRect ''rgba(0, 255, 0, 0.8)'' 440 30 (mt ''person 85%'' + 8) 20,
        FillText ''#000'' ''person 85%'' 444 46]" for mt
    using label_person by (simp add: drawDetection_mirrored col) (simp add: person_def)
  have d: "map_option painted (canvasRef (drawDetections True 640 480 [person] s)) =
       map_option (\<lambda>c. [StrokeRect ''#28a745'' 440 50 100 100,
                          FillRect ''rgba(0, 255, 0, 0.8)'' 440 30
                            (measureText c ''person 85%'' + 8) 20,
                          FillText ''#000'' ''person 85%'' 444 46])
         (canvasRef s)"
    by (cases "canvasRef s") (simp_all add: drawDetections_canvas paintDetections_def one)
  have e: "map_option (strokedBoxes \<circ> painted) (canvasRef (drawDetections True 640 480 [person] s)) =
       map_option (\<lambda>c. [\<lparr>x1 = 440, y1 = 50, x2 = 540, y2 = 150\<rparr>]) (canvasRef s)"
    unfolding b by (simp add: person_def)
  have f: "fire 2 True live0 = (ticked0, Some \<lparr>p_w = 640, p_h = 480, p_mirror = True\<rparr>)"
    by (simp add: ticked0_def) (simp add: live0_eq fire_def processLiveFrame_def Let_def)
  have t: "canvasRef ticked0 = Some \<lparr>cwidth = 300, cheight = 150, painted = [],
                        measureText = (\<lambda>label. 7 * real (length label))\<rparr>"
    by (simp add: ticked0_def live0_eq fire_def processLiveFrame_def Let_def)
  have g: "map_option painted
        (canvasRef (onResponse \<lparr>p_w = 640, p_h = 480, p_mirror = True\<rparr>
                      (Ok (Some [person])) ticked0)) =
       Some [StrokeRect ''#28a745'' 440 50 100 100,
             FillRect ''rgba(0, 255, 0, 0.8)'' 440 30 78 20,
             FillText ''#000'' ''person 85%'' 444 46]"
    by (simp add: onResponse_def rerender_def fpsEffect_def fpsCleanup_def clearInterval_def
        setInterval_def Let_def processLiveFrame_resume_def drawDetections_canvas t
        paintDetections_def one split: option.splits)
  show ?thesis
    unfolding col col' using a b c d e f g by simp
qed

text \<open>Without mirroring the outline is the box itself; mirroring twice gives it back.\<close>

lemma unmirrored_box:
  "strokedBoxes (drawDetection False width mt det) =
     [\<lparr>x1 = x1 (box det), y1 = y1 (box det), x2 = x2 (box det), y2 = y2 (box det)\<rparr>]"
  by (simp add: drawDetection_def strokedBoxes_def Let_def)

lemma mirror_involution:
  "strokedBoxes (drawDetection True width mt
      (det\<lparr>box := hd (strokedBoxes (drawDetection True width mt det))\<rparr>)) =
     [\<lparr>x1 = x1 (box det), y1 = y1 (box det), x2 = x2 (box det), y2 = y2 (box det)\<rparr>]"
  by (simp add: drawDetection_def strokedBoxes_def Let_def)

section \<open>Confidence colours (C5)\<close>

text \<open>
  C5. The colour of a confidence is the high colour above 0.7, else the medium colour
  above 0.4, else the low colour, both comparisons strict: 0.71 is high, 0.70 and 0.41
  are medium, 0.40 is low. The outline of the live overlay and the confidence bar of the
  upload result view (in \<open>App.jsx\<close> and in \<open>App.js\<close>) take their colour from it.
\<close>

theorem C5_confidence_colour:
  "getConfidenceColor c =
     (if 0.7 < c then ''#28a745'' else if 0.4 < c then ''#ffc107'' else ''#dc3545'')
   \<and> getConfidenceColor 0.71 = ''#28a745'' \<and> getConfidenceColor 0.70 = ''#ffc107''
   \<and> getConfidenceColor 0.41 = ''#ffc107'' \<and> getConfidenceColor 0.40 = ''#dc3545''
   \<and> getConfidenceColor_js c = getConfidenceColor c
   \<and> hd (drawDetection m width mt det) =
        StrokeRect (getConfidenceColor (confidence det))
          (if m then width - x2 (box det) else x1 (box det)) (y1 (box det))
          (x2 (box det) - x1 (box det)) (y2 (box det) - y1 (box det))
   \<and> snd (confidenceBarStyle det) = getConfidenceColor (confidence det)
   \<and> snd (confidenceBarStyle_js det) = getConfidenceColor (confidence det)"
  by (simp add: getConfidenceColor_def getConfidenceColor_js_def drawDetection_def Let_def
      confidenceBarStyle_def confidenceBarStyle_js_def)

section \<open>Upload validation (C9, C10)\<close>

text \<open>
  C9. A selected file whose type is none of image/jpeg, image/png, image/bmp, or whose
  size is above 5 MiB, is refused on the spot: an error message is shown, the file is not
  taken and no request is sent. A file meeting both conditions is taken, and it is what
  the next submit sends.
\<close>

theorem C9_upload_validation:
  "(ftype f \<notin> {''image/jpeg'', ''image/png'', ''image/bmp''} \<or> fsize f > 5 * 1024 * 1024 \<longrightarrow>
      errorShown (handleFileChange url (Some f) u)
      \<and> file_sel (handleFileChange url (Some f) u) = file_sel u
      \<and> posted (handleFileChange url (Some f) u) = posted u)
   \<and> (ftype f \<in> {''image/jpeg'', ''image/png'', ''image/bmp''} \<and> fsize f \<le> 5 * 1024 * 1024 \<longrightarrow>
      \<not> errorShown (handleFileChange url (Some f) u)
      \<and> file_sel (handleFileChange url (Some f) u) = Some f
      \<and> posted (handleFileChange url (Some f) u) = posted u
      \<and> posted (handleSubmit (handleFileChange url (Some f) u)) = posted u @ [f])
   \<and> handleFileChange_js url (Some f) u = handleFileChange url (Some f) u"
  by (auto simp add: handleFileChange_def handleFileChange_js_def handleSubmit_def
      errorShown_def allowedTypes_def maxSize_def)

theorem C9_upload_validation_witness:
  "ftype report \<notin> {''image/jpeg'', ''image/png'', ''image/bmp''}
   \<and> errorShown (handleFileChange blobURL (Some report) upload0)
   \<and> file_sel (handleFileChange blobURL (Some report) upload0) = None
   \<and> fsize poster > 5 * 1024 * 1024
   \<and> errorShown (handleFileChange blobURL (Some poster) upload0)
   \<and> file_sel (handleFileChange blobURL (Some poster) upload0) = None
   \<and> ftype photo \<in> {''image/jpeg'', ''image/png'', ''image/bmp''} \<and> fsize photo \<le> 5 * 1024 * 1024
   \<and> file_sel (handleFileChange blobURL (Some photo) upload0) = Some photo
   \<and> posted (handleSubmit (handleFileChange blobURL (Some photo) upload0)) = [photo]"
  using C9_upload_validation [of report blobURL upload0]
        C9_upload_validation [of poster blobURL upload0]
        C9_upload_validation [of photo blobURL upload0]
  by (simp add: report_def poster_def photo_def upload0_def)

text \<open>
  C10. A refused selection changes nothing but the error message: the file selected
  before, its preview URL and the earlier detection result stay. An accepted selection
  replaces file and preview and clears error and result.
\<close>

theorem C10_rejection_atomic:
  "(ftype f \<notin> {''image/jpeg'', ''image/png'', ''image/bmp''} \<or> fsize f > 5 * 1024 * 1024 \<longrightarrow>
      handleFileChange url (Some f) u = u\<lparr>error := error (handleFileChange url (Some f) u)\<rparr>
      \<and> error (handleFileChange url (Some f) u) \<noteq> []
      \<and> file_sel (handleFileChange url (Some f) u) = file_sel u
      \<and> preview (handleFileChange url (Some f) u) = preview u
      \<and> result (handleFileChange url (Some f) u) = result u)
   \<and> (ftype f \<in> {''image/jpeg'', ''image/png'', ''image/bmp''} \<and> fsize f \<le> 5 * 1024 * 1024 \<longrightarrow>
      handleFileChange url (Some f) u =
        u\<lparr>file_sel := Some f, preview := url f, error := [], result := None\<rparr>)
   \<and> handleFileChange_js url (Some f) u = handleFileChange url (Some f) u"
  by (auto simp add: handleFileChange_def handleFileChange_js_def allowedTypes_def maxSize_def)

theorem C10_rejection_atomic_witness:
  "file_sel upload1 = Some photo \<and> preview upload1 = ''blob:cat.png'' \<and> result upload1 \<noteq> None
   \<and> ftype report \<notin> {''image/jpeg'', ''image/png'', ''image/bmp''}
   \<and> handleFileChange blobURL (Some report) upload1 =
       upload1\<lparr>error := ''Invalid file type. Please upload a JPG, PNG, or BMP image.''\<rparr>
   \<and> fsize poster > 5 * 1024 * 1024
   \<and> handleFileChange blobURL (Some poster) upload1 =
       upload1\<lparr>error := ''Image size is too large. Maximum size is 5MB.''\<rparr>
   \<and> ftype photo \<in> {''image/jpeg'', ''image/png'', ''image/bmp''} \<and> fsize photo \<le> 5 * 1024 * 1024
   \<and> handleFileChange blobURL (Some photo) (handleFileChange blobURL (Some report) upload1) =
       upload1\<lparr>error := [], result := None\<rparr>"
  using C10_rejection_atomic [of report blobURL upload1]
        C10_rejection_atomic [of poster blobURL upload1]
        C10_rejection_atomic [of photo blobURL "handleFileChange blobURL (Some report) upload1"]
  by (simp add: report_def poster_def photo_def upload0_def upload1_def blobURL_def
      handleFileChange_def allowedTypes_def maxSize_def)

section \<open>The live session: what each function does to the state\<close>
text \<open>
  \<open>stopLive\<close>, the effect and its cleanup, each as one record update. The proofs below
  rewrite with these instead of unfolding the nested case distinctions.
\<close>

lemma stopLive_closed:
  "stopLive s = s\<lparr>liveRunning := False, intervalRef := None,
      timers := (case intervalRef s of None \<Rightarrow> timers s | Some i \<Rightarrow> filter (\<lambda>p. fst p \<noteq> i) (timers s)),
      cleared := cleared s @ (case intervalRef s of None \<Rightarrow> [] | Some i \<Rightarrow> [i]),
      stopped := stopped s @ (case videoRef s of None \<Rightarrow> [] | Some v \<Rightarrow> (case srcObject v of None \<Rightarrow> [] | Some tr \<Rightarrow> tr)),
      videoRef := map_option (\<lambda>v. v\<lparr>srcObject := None\<rparr>) (videoRef s),
      canvasRef := map_option (\<lambda>c. c\<lparr>painted := []\<rparr>) (canvasRef s)\<rparr>"
proof (cases s)
  case (fields a b c d e f g h i j k l m n p q r)
  show ?thesis
  proof (cases h)
    case None
    then show ?thesis unfolding fields 
      by (cases g; cases i) (simp_all add: stopLive_def clearInterval_def Let_def)
  next
    case (Some v)
    then show ?thesis unfolding fields
      by (cases g; cases i; cases "srcObject v"; cases v) (simp_all add: stopLive_def clearInterval_def Let_def)
  qed
qed

lemma fpsEffect_running:
  "liveRunning s \<Longrightarrow> fpsEffect s =
     s\<lparr>timers := (case intervalRef s of None \<Rightarrow> timers s | Some i \<Rightarrow> filter (\<lambda>p. fst p \<noteq> i) (timers s))
          @ [(Suc (timerCount s), \<lparr>delay = intervalMs (liveFps s), cb_liveConf = liveConf s, cb_mirror = mirror s\<rparr>)],
       timerCount := Suc (timerCount s),
       cleared := cleared s @ (case intervalRef s of None \<Rightarrow> [] | Some i \<Rightarrow> [i]),
       intervalRef := Some (Suc (timerCount s)), effectCleanup := True\<rparr>"
  by (cases s; cases "intervalRef s") (simp_all add: fpsEffect_def clearInterval_def setInterval_def Let_def)

lemma fpsCleanup_closed:
  "fpsCleanup s = s\<lparr>timers := (case intervalRef s of None \<Rightarrow> timers s | Some i \<Rightarrow> filter (\<lambda>p. fst p \<noteq> i) (timers s)),
       cleared := cleared s @ (case intervalRef s of None \<Rightarrow> [] | Some i \<Rightarrow> [i])\<rparr>"
  by (cases s; cases "intervalRef s") (simp_all add: fpsCleanup_def clearInterval_def)

lemma stopLive_idem: "stopLive (stopLive s) = stopLive s"
  apply (subst (1 2) stopLive_closed)
  apply (subst stopLive_closed)
  apply (simp add: option.map_comp comp_def split: option.splits)
  done

lemma rerender_idle:
  "\<not> liveRunning s \<Longrightarrow> intervalRef s = None \<Longrightarrow>
     rerender s = s\<lparr>effectDeps := (liveFps s, False),
        effectCleanup := (if effectDeps s = (liveFps s, False) then effectCleanup s else False)\<rparr>"
  by (cases s) (simp add: rerender_def fpsEffect_def fpsCleanup_def Let_def)

lemma rerender_settled: "settled s \<Longrightarrow> rerender s = s"
  by (simp add: rerender_def settled_def)

lemma onStopLive_closed:
  "onStopLive s = (stopLive s)\<lparr>effectDeps := (liveFps s, False),
        effectCleanup := (if effectDeps s = (liveFps s, False) then effectCleanup s else False)\<rparr>"
  unfolding onStopLive_def
  apply (subst rerender_idle)
    apply (simp_all add: stopLive_closed)
  done

lemma onStopLive_idem: "onStopLive (onStopLive s) = onStopLive s"
  apply (subst (1 2) onStopLive_closed)
  apply (subst onStopLive_closed)
  apply (simp add: stopLive_closed option.map_comp comp_def split: option.splits)
  done

lemma owned_filter:
  "owned s \<Longrightarrow>
   (case intervalRef s of None \<Rightarrow> timers s
    | Some i \<Rightarrow> filter (\<lambda>p. fst p \<noteq> i) (timers s)) = []"
  by (auto simp add: owned_def map_eq_Cons_conv split: option.splits)

lemma stopLive_owned: "owned s \<Longrightarrow> timers (stopLive s) = []"
  by (simp add: stopLive_closed owned_filter)

lemma fire_none: "timers s = [] \<Longrightarrow> fire i b s = (s, None)"
  by (simp add: fire_def)

subsection \<open>Re-rendering\<close>

lemma rerender_keeps:
  "canvasRef (rerender s) = canvasRef s"
  "videoRef (rerender s) = videoRef s"
  "toasts (rerender s) = toasts s"
  "stopped (rerender s) = stopped s"
  "fetched (rerender s) = fetched s"
  "liveRunning (rerender s) = liveRunning s"
  "liveFps (rerender s) = liveFps s"
  "mirror (rerender s) = mirror s"
  "liveConf (rerender s) = liveConf s"
  "liveError (rerender s) = liveError s"
  by (simp_all add: rerender_def fpsEffect_def fpsCleanup_def clearInterval_def setInterval_def
      Let_def split: option.splits)


lemma onResponse_Failed: "onResponse p Failed s = onStopLive (showToast ''Live detection error.'' ''error'' s)"
  by (simp add: onResponse_def onStopLive_def processLiveFrame_resume_def)

lemma rerender_running:
  "liveRunning s \<Longrightarrow> owned s \<Longrightarrow> \<not> settled s \<Longrightarrow>
   rerender s = s\<lparr>timers := [(Suc (timerCount s), \<lparr>delay = intervalMs (liveFps s), cb_liveConf = liveConf s, cb_mirror = mirror s\<rparr>)],
       timerCount := Suc (timerCount s),
       cleared := cleared s @ (if effectCleanup s then (case intervalRef s of None \<Rightarrow> [] | Some i \<Rightarrow> [i]) else [])
                    @ (case intervalRef s of None \<Rightarrow> [] | Some i \<Rightarrow> [i]),
       intervalRef := Some (Suc (timerCount s)), effectCleanup := True,
       effectDeps := (liveFps s, True)\<rparr>"
  apply (cases "effectCleanup s")
   apply (simp_all add: rerender_def settled_def Let_def fpsEffect_running fpsCleanup_closed owned_filter)
  subgoal
    apply (cases "intervalRef s")
     apply (simp_all add: owned_def)
    done
  done

lemma idle_stopLive:
  "idle s \<Longrightarrow> stopLive s = s\<lparr>canvasRef := map_option (\<lambda>c. c\<lparr>painted := []\<rparr>) (canvasRef s)\<rparr>"
  apply (subst stopLive_closed)
  apply (cases s; cases "videoRef s")
   apply (simp_all add: idle_def)
  done

subsection \<open>More of the concrete session\<close>

lemma ticked0_eq:
  "ticked0 =
    \<lparr>liveRunning = True, liveError = [], mirror = True, liveFps = 2, liveConf = 0.25,
     toasts = [], intervalRef = Some 2,
     videoRef = Some \<lparr>srcObject = Some [1], readyState = 4, videoWidth = 640, videoHeight = 480\<rparr>,
     canvasRef = Some \<lparr>cwidth = 300, cheight = 150, painted = [],
                        measureText = (\<lambda>label. 7 * real (length label))\<rparr>,
     offscreenCanvasRef = Some (640, 480),
     timers = [(2, \<lparr>delay = 500, cb_liveConf = 0.25, cb_mirror = True\<rparr>)],
     timerCount = 2, cleared = [1], stopped = [], fetched = [0.25],
     effectDeps = (2, True), effectCleanup = True\<rparr>"
  by (simp add: ticked0_def live0_eq fire_def processLiveFrame_def Let_def)


lemma painted_person:
  "drawDetection True 640 (\<lambda>label. 7 * real (length label)) person =
     [StrokeRect ''#28a745'' 440 50 100 100,
      FillRect ''rgba(0, 255, 0, 0.8)'' 440 30 78 20,
      FillText ''#000'' ''person 85%'' 444 46]"
  using label_person
  by (simp add: drawDetection_def Let_def getConfidenceColor_def) (simp add: person_def)

lemma retuned0_eq:
  "retuned0 =
    \<lparr>liveRunning = True, liveError = [], mirror = False, liveFps = 2, liveConf = 0.5,
     toasts = [], intervalRef = Some 2,
     videoRef = Some \<lparr>srcObject = Some [1], readyState = 4, videoWidth = 640, videoHeight = 480\<rparr>,
     canvasRef = Some \<lparr>cwidth = 300, cheight = 150, painted = [],
                        measureText = (\<lambda>label. 7 * real (length label))\<rparr>,
     offscreenCanvasRef = None,
     timers = [(2, \<lparr>delay = 500, cb_liveConf = 0.25, cb_mirror = True\<rparr>)],
     timerCount = 2, cleared = [1], stopped = [], fetched = [],
     effectDeps = (2, True), effectCleanup = True\<rparr>"
  by (simp add: retuned0_def setLiveConf_def setMirror_def live0_eq rerender_def)

lemma lateIdle0_eq:
  "lateIdle0 =
    \<lparr>liveRunning = False, liveError = [], mirror = True, liveFps = 2, liveConf = 0.25,
     toasts = [], intervalRef = None,
     videoRef = Some \<lparr>srcObject = None, readyState = 4, videoWidth = 640, videoHeight = 480\<rparr>,
     canvasRef = Some \<lparr>cwidth = 640, cheight = 480,
          painted = [StrokeRect ''#28a745'' 440 50 100 100,
                     FillRect ''rgba(0, 255, 0, 0.8)'' 440 30 78 20,
                     FillText ''#000'' ''person 85%'' 444 46],
          measureText = (\<lambda>label. 7 * real (length label))\<rparr>,
     offscreenCanvasRef = Some (640, 480),
     timers = [],
     timerCount = 2, cleared = [1, 2], stopped = [1], fetched = [0.25],
     effectDeps = (2, False), effectCleanup = False\<rparr>"
  by (simp add: lateIdle0_def onStopLive_closed stopLive_closed ticked0_eq onResponse_def
      rerender_def processLiveFrame_resume_def drawDetections_def paintDetections_def
      request0_def painted_person)

lemma rejected0_eq:
  "rejected0 =
    \<lparr>liveRunning = False, liveError = [], mirror = True, liveFps = 2, liveConf = 0.25,
     toasts = [(''Could not access the webcam.'', ''error'')], intervalRef = None,
     videoRef = Some \<lparr>srcObject = Some [1], readyState = 0, videoWidth = 0, videoHeight = 0\<rparr>,
     canvasRef = Some \<lparr>cwidth = 300, cheight = 150, painted = [],
                        measureText = (\<lambda>label. 7 * real (length label))\<rparr>,
     offscreenCanvasRef = None,
     timers = [],
     timerCount = 0, cleared = [], stopped = [], fetched = [],
     effectDeps = (2, False), effectCleanup = False\<rparr>"
  by (simp add: rejected0_def onStartLive_def startLive_def showToast_def page0_eq
      rerender_def Let_def)

lemma stoppedWhileStarting0_eq:
  "stoppedWhileStarting0 =
    \<lparr>liveRunning = True, liveError = [], mirror = True, liveFps = 2, liveConf = 0.25,
     toasts = [], intervalRef = Some 2,
     videoRef = Some \<lparr>srcObject = Some [1], readyState = 0, videoWidth = 0, videoHeight = 0\<rparr>,
     canvasRef = Some \<lparr>cwidth = 300, cheight = 150, painted = [],
                        measureText = (\<lambda>label. 7 * real (length label))\<rparr>,
     offscreenCanvasRef = None,
     timers = [(2, \<lparr>delay = 500, cb_liveConf = 0.25, cb_mirror = True\<rparr>)],
     timerCount = 2, cleared = [1], stopped = [], fetched = [],
     effectDeps = (2, True), effectCleanup = True\<rparr>"
  by (simp add: stoppedWhileStarting0_def closure0_def startLive_pressed_def startLive_afterMedia_def startLive_afterPlay_def
      startLive_loop_def startLive_failed_def
      page0_eq onStopLive_closed stopLive_closed setInterval_def clearInterval_def
      rerender_def fpsEffect_def intervalMs_def Math_round_def Let_def)

lemma doubled0_eq:
  "doubled0 =
    \<lparr>liveRunning = True, liveError = [], mirror = True, liveFps = 2, liveConf = 0.25,
     toasts = [], intervalRef = Some 3,
     videoRef = Some \<lparr>srcObject = Some [2], readyState = 4, videoWidth = 640, videoHeight = 480\<rparr>,
     canvasRef = Some \<lparr>cwidth = 300, cheight = 150, painted = [],
                        measureText = (\<lambda>label. 7 * real (length label))\<rparr>,
     offscreenCanvasRef = None,
     timers = [(2, \<lparr>delay = 500, cb_liveConf = 0.25, cb_mirror = True\<rparr>),
                (3, \<lparr>delay = 500, cb_liveConf = 0.25, cb_mirror = True\<rparr>)],
     timerCount = 3, cleared = [1], stopped = [], fetched = [],
     effectDeps = (2, True), effectCleanup = True\<rparr>"
  by (simp add: doubled0_def closure0_def startLive_pressed_def startLive_afterMedia_def startLive_afterPlay_def
      startLive_loop_def startLive_failed_def
      page0_eq videoLoaded_def setInterval_def clearInterval_def
      rerender_def fpsEffect_def intervalMs_def Math_round_def Let_def)

lemma doubledTicked0_eq:
  "doubledTicked0 =
    \<lparr>liveRunning = True, liveError = [], mirror = True, liveFps = 2, liveConf = 0.25,
     toasts = [], intervalRef = Some 3,
     videoRef = Some \<lparr>srcObject = Some [2], readyState = 4, videoWidth = 640, videoHeight = 480\<rparr>,
     canvasRef = Some \<lparr>cwidth = 300, cheight = 150, painted = [],
                        measureText = (\<lambda>label. 7 * real (length label))\<rparr>,
     offscreenCanvasRef = Some (640, 480),
     timers = [(2, \<lparr>delay = 500, cb_liveConf = 0.25, cb_mirror = True\<rparr>),
                (3, \<lparr>delay = 500, cb_liveConf = 0.25, cb_mirror = True\<rparr>)],
     timerCount = 3, cleared = [1], stopped = [], fetched = [0.25],
     effectDeps = (2, True), effectCleanup = True\<rparr>"
  by (simp add: doubledTicked0_def doubled0_eq fire_def processLiveFrame_def Let_def)

lemma fire_doubled0: "fire 3 True doubled0 = (doubledTicked0, Some request0)"
  by (simp add: doubledTicked0_eq request0_def)
    (simp add: doubled0_eq fire_def processLiveFrame_def Let_def)

section \<open>A tick before the video is ready (C8)\<close>

text \<open>
  C8. When the timer fires while the video element has not buffered a frame
  (\<open>readyState\<close> below 2), the tick does nothing: the state is returned as it was (so the
  session state, the toasts and the overlay are untouched) and no request is sent.
\<close>

theorem C8_not_ready_skipped:
  assumes "videoRef s = Some v" and "readyState v < 2"
  shows "processLiveFrame t blob s = (s, None) \<and> fire i blob s = (s, None)
       \<and> sessionState (fst (fire i blob s)) = sessionState s
       \<and> toasts (fst (fire i blob s)) = toasts s
       \<and> fetched (fst (fire i blob s)) = fetched s
       \<and> canvasRef (fst (fire i blob s)) = canvasRef s"
proof -
  have "processLiveFrame t' blob s = (s, None)" for t'
    using assms by (simp add: processLiveFrame_def)
  then have "processLiveFrame t blob s = (s, None)" and "fire i blob s = (s, None)"
    by (simp_all add: fire_def split: option.splits)
  then show ?thesis by simp
qed

theorem C8_not_ready_skipped_witness:
  "videoRef starting0 = Some \<lparr>srcObject = Some [1], readyState = 0, videoWidth = 0, videoHeight = 0\<rparr>
   \<and> readyState \<lparr>srcObject = Some [1], readyState = 0, videoWidth = 0, videoHeight = 0\<rparr> < 2
   \<and> map_of (timers starting0) 2 = Some \<lparr>delay = 500, cb_liveConf = 0.25, cb_mirror = True\<rparr>
   \<and> fire 2 True starting0 = (starting0, None)"
  using C8_not_ready_skipped [of starting0 "\<lparr>srcObject = Some [1], readyState = 0, videoWidth = 0, videoHeight = 0\<rparr>" _ True 2]
  by (simp add: starting0_eq)

section \<open>Stopping (C7)\<close>

text \<open>
  C7, as amended. \<open>stopLive\<close> is idempotent: a second call in a row changes nothing at
  all, and after every call the session is not running, holds no timer handle and has no
  stream attached. Called on a session that is already so, it cancels no timer, stops no
  track, raises no toast and sets no error; it wipes the overlay again, which changes
  something only when a late response had painted on it. Called with a timer handle in
  \<open>intervalRef\<close> it cancels that timer, which leaves no timer active when it was the only
  one; with a stream attached to the video element it stops the tracks of that stream and
  detaches it; it wipes the overlay.
\<close>

theorem C7_stop_idempotent:
  "stopLive (stopLive s) = stopLive s
   \<and> onStopLive (onStopLive s) = onStopLive s
   \<and> idle (stopLive s) \<and> sessionState (stopLive s) = Idle \<and> sessionState (onStopLive s) = Idle
   \<and> (idle s \<longrightarrow>
        stopLive s = s\<lparr>canvasRef := map_option (\<lambda>c. c\<lparr>painted := []\<rparr>) (canvasRef s)\<rparr>
        \<and> sessionState (stopLive s) = Idle
        \<and> timers (stopLive s) = timers s \<and> cleared (stopLive s) = cleared s
        \<and> stopped (stopLive s) = stopped s \<and> videoRef (stopLive s) = videoRef s
        \<and> toasts (stopLive s) = toasts s \<and> liveError (stopLive s) = liveError s)
   \<and> (intervalRef s = Some i \<longrightarrow>
        i \<notin> fst ` set (timers (stopLive s)) \<and> cleared (stopLive s) = cleared s @ [i])
   \<and> (owned s \<longrightarrow> timers (stopLive s) = [])
   \<and> (videoRef s = Some v \<and> srcObject v = Some tr \<longrightarrow>
        stopped (stopLive s) = stopped s @ tr \<and> videoRef (stopLive s) = Some (v\<lparr>srcObject := None\<rparr>))
   \<and> (canvasRef s = Some c \<longrightarrow> canvasRef (stopLive s) = Some (c\<lparr>painted := []\<rparr>))"
proof -
  have a: "idle (stopLive s)"
    by (simp add: stopLive_closed idle_def split: option.splits)
  have b: "sessionState (stopLive s) = Idle" "sessionState (onStopLive s) = Idle"
    by (simp_all add: onStopLive_closed stopLive_closed sessionState_def)
  have c: "idle s \<Longrightarrow> timers (stopLive s) = timers s \<and> cleared (stopLive s) = cleared s
        \<and> stopped (stopLive s) = stopped s \<and> videoRef (stopLive s) = videoRef s
        \<and> toasts (stopLive s) = toasts s \<and> liveError (stopLive s) = liveError s"
    by (simp add: idle_stopLive)
  have d: "intervalRef s = Some i \<Longrightarrow> i \<notin> fst ` set (timers (stopLive s)) \<and> cleared (stopLive s) = cleared s @ [i]"
    by (auto simp add: stopLive_closed)
  have e: "videoRef s = Some v \<and> srcObject v = Some tr \<Longrightarrow>
        stopped (stopLive s) = stopped s @ tr \<and> videoRef (stopLive s) = Some (v\<lparr>srcObject := None\<rparr>)"
    by (simp add: stopLive_closed)
  have f: "canvasRef s = Some c \<Longrightarrow> canvasRef (stopLive s) = Some (c\<lparr>painted := []\<rparr>)"
    by (simp add: stopLive_closed)
  show ?thesis
    using a b c d e f stopLive_idem[of s] onStopLive_idem[of s] idle_stopLive[of s] stopLive_owned[of s]
    by blast
qed

theorem C7_stop_idempotent_witness:
  "idle lateIdle0
   \<and> stopLive lateIdle0 =
       lateIdle0\<lparr>canvasRef := map_option (\<lambda>c. c\<lparr>painted := []\<rparr>) (canvasRef lateIdle0)\<rparr>
   \<and> cleared (stopLive lateIdle0) = [1, 2] \<and> stopped (stopLive lateIdle0) = [1]
   \<and> toasts (stopLive lateIdle0) = []
   \<and> idle page0 \<and> stopLive page0 = page0
   \<and> intervalRef live0 = Some 2 \<and> owned live0
   \<and> videoRef live0 = Some \<lparr>srcObject = Some [1], readyState = 4, videoWidth = 640, videoHeight = 480\<rparr>
   \<and> timers (stopLive live0) = [] \<and> cleared (stopLive live0) = [1, 2]
   \<and> stopped (stopLive live0) = [1]
   \<and> videoRef (stopLive live0) = Some \<lparr>srcObject = None, readyState = 4, videoWidth = 640, videoHeight = 480\<rparr>
   \<and> map_option painted (canvasRef (stopLive live0)) = Some []
   \<and> stopLive (stopLive live0) = stopLive live0"
  using C7_stop_idempotent [of lateIdle0 0 "\<lparr>srcObject = None, readyState = 4, videoWidth = 640, videoHeight = 480\<rparr>" "[]"
           "\<lparr>cwidth = 640, cheight = 480,
          painted = [StrokeRect ''#28a745'' 440 50 100 100,
                     FillRect ''rgba(0, 255, 0, 0.8)'' 440 30 78 20,
                     FillText ''#000'' ''person 85%'' 444 46],
          measureText = (\<lambda>label. 7 * real (length label))\<rparr>"]
        C7_stop_idempotent [of page0 0 "\<lparr>srcObject = None, readyState = 0, videoWidth = 0, videoHeight = 0\<rparr>" "[]"
           "\<lparr>cwidth = 300, cheight = 150, painted = [], measureText = (\<lambda>label. 7 * real (length label))\<rparr>"]
        C7_stop_idempotent [of live0 2 "\<lparr>srcObject = Some [1], readyState = 4, videoWidth = 640, videoHeight = 480\<rparr>" "[1]"
           "\<lparr>cwidth = 300, cheight = 150, painted = [], measureText = (\<lambda>label. 7 * real (length label))\<rparr>"]
  apply (simp only: live0_eq page0_eq lateIdle0_eq)
  apply (simp add: idle_def owned_def)
  done

text \<open>
  The claim as first stated fails in four ways. (1) An idle session whose overlay a late
  response has painted: \<open>stopLive\<close> wipes it, so the call is not a no-op. (2) After
  \<open>play()\<close> rejected the session is not running but the stream is still attached:
  \<open>stopLive\<close> stops its track. (3) \<open>stopLive\<close> called while a start waits for the camera
  leaves that start pending, and the session comes up running afterwards. (4) After
  Start Live was pressed twice before the camera was granted, \<open>stopLive\<close> cancels timer 3
  and stops track 2; timer 2 stays active and track 1 is never stopped.
\<close>

theorem C7_stop_counterexample:
  "sessionState lateIdle0 = Idle \<and> idle lateIdle0
   \<and> map_option painted (canvasRef lateIdle0) =
       Some [StrokeRect ''#28a745'' 440 50 100 100,
             FillRect ''rgba(0, 255, 0, 0.8)'' 440 30 78 20,
             FillText ''#000'' ''person 85%'' 444 46]
   \<and> map_option painted (canvasRef (stopLive lateIdle0)) = Some []
   \<and> stopLive lateIdle0 \<noteq> lateIdle0
   \<and> sessionState rejected0 = Idle \<and> stopped rejected0 = []
   \<and> stopped (stopLive rejected0) = [1]
   \<and> sessionState (onStopLive (fst (startLive_pressed page0))) = Idle
   \<and> sessionState stoppedWhileStarting0 = Running
   \<and> map fst (timers stoppedWhileStarting0) = [2]
   \<and> stopped stoppedWhileStarting0 = []
   \<and> sessionState doubled0 = Running \<and> map fst (timers doubled0) = [2, 3]
   \<and> sessionState (stopLive doubled0) = Idle
   \<and> map fst (timers (stopLive doubled0)) = [2]
   \<and> stopped (stopLive doubled0) = [2]"
proof -
  have a: "map_option painted (canvasRef (stopLive lateIdle0)) = Some []"
    by (simp add: stopLive_closed lateIdle0_eq)
  have b: "map_option painted (canvasRef lateIdle0) =
       Some [StrokeRect ''#28a745'' 440 50 100 100,
             FillRect ''rgba(0, 255, 0, 0.8)'' 440 30 78 20,
             FillText ''#000'' ''person 85%'' 444 46]"
    by (simp add: lateIdle0_eq)
  have c: "stopLive lateIdle0 \<noteq> lateIdle0"
    using a b by auto
  have d: "sessionState lateIdle0 = Idle" "idle lateIdle0"
    by (simp_all add: lateIdle0_eq sessionState_def idle_def)
  have e: "sessionState rejected0 = Idle" "stopped rejected0 = []"
       "stopped (stopLive rejected0) = [1]"
    by (simp_all add: stopLive_closed rejected0_eq sessionState_def)
  have f: "sessionState (onStopLive (fst (startLive_pressed page0))) = Idle"
    by (simp add: onStopLive_closed stopLive_closed sessionState_def)
  have g: "sessionState stoppedWhileStarting0 = Running"
       "map fst (timers stoppedWhileStarting0) = [2]" "stopped stoppedWhileStarting0 = []"
    by (simp_all add: stoppedWhileStarting0_eq sessionState_def)
  have h: "sessionState doubled0 = Running" "map fst (timers doubled0) = [2, 3]"
       "sessionState (stopLive doubled0) = Idle"
       "map fst (timers (stopLive doubled0)) = [2]" "stopped (stopLive doubled0) = [2]"
    by (simp_all add: stopLive_closed doubled0_eq sessionState_def)
  show ?thesis
    using a b c d e f g h by simp
qed

section \<open>A failed detection request (C2)\<close>

text \<open>
  When the failing tick belongs to a session whose only timer is the one in
  \<open>intervalRef\<close> and whose stream is attached to the mounted video element, the session
  becomes idle, no timer is left, the tracks are stopped and one toast is added.
\<close>

lemma failed_tick_single_session:
  assumes "sessionState s = Running" and "owned s"
    and "videoRef s = Some v" and "srcObject v = Some tr"
  shows "sessionState (onResponse p Failed s) = Idle
       \<and> intervalRef (onResponse p Failed s) = None
       \<and> timers (onResponse p Failed s) = []
       \<and> fire i blob (onResponse p Failed s) = (onResponse p Failed s, None)
       \<and> videoRef (onResponse p Failed s) = Some (v\<lparr>srcObject := None\<rparr>)
       \<and> stopped (onResponse p Failed s) = stopped s @ tr
       \<and> toasts (onResponse p Failed s) = toasts s @ [(''Live detection error.'', ''error'')]"
proof -
  let ?t = "showToast ''Live detection error.'' ''error'' s"
  have o: "owned ?t"
    using assms(2) by (simp add: owned_def showToast_def)
  have v: "videoRef ?t = Some v"
    using assms(3) by (simp add: showToast_def)
  have t: "timers (onStopLive ?t) = []"
    using stopLive_owned[OF o] by (simp add: onStopLive_closed)
  have a: "sessionState (onStopLive ?t) = Idle" "intervalRef (onStopLive ?t) = None"
    by (simp_all add: onStopLive_closed stopLive_closed sessionState_def)
  have b: "videoRef (onStopLive ?t) = Some (v\<lparr>srcObject := None\<rparr>)"
       "stopped (onStopLive ?t) = stopped s @ tr"
    using v assms(4) by (simp_all add: onStopLive_closed stopLive_closed) (simp add: showToast_def)
  have c: "toasts (onStopLive ?t) = toasts s @ [(''Live detection error.'', ''error'')]"
    by (simp add: onStopLive_closed stopLive_closed) (simp add: showToast_def)
  show ?thesis
    unfolding onResponse_Failed using t a b c fire_none[OF t] by simp
qed

text \<open>
  C2. The claim has every failed tick stop the tick loop and release the device, with
  exactly one notification. The catch block raises one toast and calls \<open>stopLive\<close>, which
  reaches only the timer in \<open>intervalRef\<close> and the stream attached to the mounted video
  element. After Start Live was pressed twice before the camera was granted, timers 2 and
  3 run and tracks 1 and 2 are live; the request of a tick of timer 3 fails, one toast is
  raised and the session shows idle, but timer 2 is still active and track 1 is never
  stopped. And when the user has gone to the Upload page while a request was out, its
  failure stops no track at all.
\<close>

theorem C2_failed_tick_leaves_timer_and_camera:
  "sessionState doubled0 = Running
   \<and> map fst (timers doubled0) = [2, 3]
   \<and> fire 3 True doubled0 = (doubledTicked0, Some request0)
   \<and> sessionState (onResponse request0 Failed doubledTicked0) = Idle
   \<and> toasts (onResponse request0 Failed doubledTicked0) = [(''Live detection error.'', ''error'')]
   \<and> timers (onResponse request0 Failed doubledTicked0) =
       [(2, \<lparr>delay = 500, cb_liveConf = 0.25, cb_mirror = True\<rparr>)]
   \<and> stopped (onResponse request0 Failed doubledTicked0) = [2]
   \<and> sessionState (leaveLivePage ticked0) = Running
   \<and> sessionState (onResponse request0 Failed (leaveLivePage ticked0)) = Idle
   \<and> stopped (onResponse request0 Failed (leaveLivePage ticked0)) = []"
proof -
  have a: "sessionState doubled0 = Running" "map fst (timers doubled0) = [2, 3]"
    by (simp_all add: doubled0_eq sessionState_def)
  have b: "sessionState (onResponse request0 Failed doubledTicked0) = Idle"
       "toasts (onResponse request0 Failed doubledTicked0) = [(''Live detection error.'', ''error'')]"
       "timers (onResponse request0 Failed doubledTicked0) =
          [(2, \<lparr>delay = 500, cb_liveConf = 0.25, cb_mirror = True\<rparr>)]"
       "stopped (onResponse request0 Failed doubledTicked0) = [2]"
    by (simp_all add: onResponse_Failed onStopLive_closed stopLive_closed showToast_def
        doubledTicked0_eq sessionState_def)
  have l: "leaveLivePage ticked0 =
    \<lparr>liveRunning = True, liveError = [], mirror = True, liveFps = 2, liveConf = 0.25,
     toasts = [], intervalRef = Some 2, videoRef = None, canvasRef = None,
     offscreenCanvasRef = Some (640, 480),
     timers = [(2, \<lparr>delay = 500, cb_liveConf = 0.25, cb_mirror = True\<rparr>)],
     timerCount = 2, cleared = [1], stopped = [], fetched = [0.25],
     effectDeps = (2, True), effectCleanup = True\<rparr>"
    by (simp add: leaveLivePage_def rerender_def ticked0_eq)
  have c: "sessionState (leaveLivePage ticked0) = Running"
       "sessionState (onResponse request0 Failed (leaveLivePage ticked0)) = Idle"
       "stopped (onResponse request0 Failed (leaveLivePage ticked0)) = []"
    by (simp_all add: l onResponse_Failed onStopLive_closed stopLive_closed showToast_def
        sessionState_def)
  show ?thesis
    using a b c fire_doubled0 by simp
qed

section \<open>A response that arrives after stopping (C1)\<close>




section \<open>Changing the settings while running (C6)\<close>

text \<open>
  A change of \<open>liveFps\<close> replaces the timer: in a running session whose only timer is the
  one in \<open>intervalRef\<close>, the old timer is cancelled and one new timer with the new interval
  is created. A change of \<open>liveConf\<close> or \<open>mirror\<close> leaves the schedule alone, and a tick
  works with the values its timer closed over.
\<close>

lemma retuning_keeps_schedule:
  assumes "settled s"
  shows "timers (setMirror b s) = timers s \<and> timers (setLiveConf x s) = timers s
       \<and> intervalRef (setMirror b s) = intervalRef s \<and> intervalRef (setLiveConf x s) = intervalRef s"
  using assms by (simp add: setMirror_def setLiveConf_def rerender_def settled_def)

lemma tick_uses_closed_over_values:
  assumes "map_of (timers s) i = Some t" and "videoRef s = Some v" and "2 \<le> readyState v"
  shows "snd (fire i True s) = Some \<lparr>p_w = videoWidth v, p_h = videoHeight v, p_mirror = cb_mirror t\<rparr>
       \<and> fetched (fst (fire i True s)) = fetched s @ [cb_liveConf t]"
  using assms by (simp add: fire_def processLiveFrame_def Let_def)

lemma reschedule_single_timer:
  assumes "owned s" and "settled s" and "liveRunning s" and "v \<noteq> liveFps s"
  shows "timers (setLiveFps v s) =
           [(Suc (timerCount s),
             \<lparr>delay = intervalMs v, cb_liveConf = liveConf s, cb_mirror = mirror s\<rparr>)]
       \<and> intervalRef (setLiveFps v s) = Some (Suc (timerCount s))"
proof -
  let ?s = "s\<lparr>liveFps := v\<rparr>"
  have "liveRunning ?s" "owned ?s" "\<not> settled ?s"
    using assms by (simp_all add: owned_def settled_def)
  from rerender_running[OF this] show ?thesis
    by (simp add: setLiveFps_def)
qed

text \<open>
  C6. The claim has changes of the confidence threshold and of the mirror setting take
  effect at the next tick without the schedule being rebuilt. The schedule is indeed kept,
  and for that very reason the change is not seen: the running timer still calls the
  \<open>processLiveFrame\<close> of the render that created it. In the concrete session, after
  Mirror is unticked and the confidence set to 0.5, the next tick still asks the server
  with 0.25 and its boxes are still painted mirrored (440 to 540, not 100 to 200).
\<close>

theorem C6_retuning_not_applied:
  "sessionState live0 = Running
   \<and> mirror retuned0 = False \<and> liveConf retuned0 = 0.5
   \<and> timers retuned0 = timers live0
   \<and> snd (fire 2 True retuned0) = Some \<lparr>p_w = 640, p_h = 480, p_mirror = True\<rparr>
   \<and> fetched (fst (fire 2 True retuned0)) = [0.25]
   \<and> map_option (strokedBoxes \<circ> painted)
        (canvasRef (onResponse \<lparr>p_w = 640, p_h = 480, p_mirror = True\<rparr> (Ok (Some [person]))
           (fst (fire 2 True retuned0)))) =
       Some [\<lparr>x1 = 440, y1 = 50, x2 = 540, y2 = 150\<rparr>]"
proof -
  have a: "fire 2 True retuned0 = (retuned0\<lparr>offscreenCanvasRef := Some (640, 480), fetched := [0.25]\<rparr>,
       Some \<lparr>p_w = 640, p_h = 480, p_mirror = True\<rparr>)"
    by (simp add: retuned0_eq fire_def processLiveFrame_def Let_def)
  have b: "map_option painted
        (canvasRef (onResponse \<lparr>p_w = 640, p_h = 480, p_mirror = True\<rparr> (Ok (Some [person]))
           (fst (fire 2 True retuned0)))) =
       Some (concat (map (drawDetection True 640 (\<lambda>label. 7 * real (length label))) [person]))"
    unfolding a
    by (simp add: onResponse_def rerender_keeps processLiveFrame_resume_def drawDetections_def
        paintDetections_def retuned0_eq)
  have c: "map_option (strokedBoxes \<circ> painted)
        (canvasRef (onResponse \<lparr>p_w = 640, p_h = 480, p_mirror = True\<rparr> (Ok (Some [person]))
           (fst (fire 2 True retuned0)))) =
       Some [\<lparr>x1 = 440, y1 = 50, x2 = 540, y2 = 150\<rparr>]"
    using b by (auto simp add: painted_person strokedBoxes_def)
  show ?thesis
    using a c by (simp add: retuned0_eq live0_eq sessionState_def)
qed

end
